theory Spec2Isabelle
  imports Complex_Main "HOL-Library.AList"
begin

section \<open>The pricing engine of pricing_algorithm.py\<close>

text \<open>
  The engine is the class \<open>ViralDealsPricingAlgorithm\<close>: a tier lookup, a markup
  adjustment, a cost breakdown, the rounding to prices that end in 9, the pipeline
  \<open>calculate_price\<close> and its loop \<open>bulk_calculate\<close>.

  Numbers. The source computes on Python floats; the embedding computes on \<open>real\<close>,
  so every product, sum and quotient is the exact one. \<open>math.floor\<close> returns a
  Python integer, which is \<open>int\<close> here, and \<open>%\<close> with a positive divisor is
  \<open>mod\<close> on \<open>int\<close>. The bounded range of the floats (overflow to an infinity,
  \<open>nan\<close>, and \<open>math.floor\<close> raising on them) is written out in a second embedding
  of \<open>calculate_price\<close>, in the subsection on the float range; rounding to 53 bits is
  not modelled in either.

  Errors. A Python exception is a value of \<open>error\<close>, and a function that can raise
  returns \<open>error + 'a\<close> with \<open>Inl\<close> for the exception.
\<close>

subsection \<open>Data\<close>

datatype ProductCategory =
  ELECTRONICS | FASHION | HOME_KITCHEN | BEAUTY | SPORTS | BOOKS | TOYS | GENERIC

datatype CompetitionLevel = LOW | MEDIUM | HIGH | VERY_HIGH

datatype error = ZeroDivisionError | KeyError | ValueError | OverflowError

record CostFactors =
  payment_gateway_fee :: real
  platform_fee :: real
  packaging_cost :: real
  returns_buffer :: real
  gst_rate :: real

text \<open>The field defaults of the dataclass: what \<open>CostFactors()\<close> builds.\<close>

definition default_cost_factors :: CostFactors where
  "default_cost_factors =
     \<lparr>payment_gateway_fee = 0.02, platform_fee = 0.03, packaging_cost = 10.0,
      returns_buffer = 0.03, gst_rate = 0.18\<rparr>"

text \<open>
  \<open>__init__\<close>: the engine keeps the cost factors it is given, or the defaults when it
  is given none (an instance of the dataclass is never falsy). The engine has no other
  state, so each method takes the cost factors where the source takes \<open>self\<close>.
\<close>

definition init :: "CostFactors option \<Rightarrow> CostFactors" where
  "init cost_factors = (case cost_factors of None \<Rightarrow> default_cost_factors | Some cf \<Rightarrow> cf)"

text \<open>
  \<open>cost_breakdown\<close> is a Python dict with string keys; its insertion order is
  observable, so it is an association list.
\<close>

record PricingResult =
  supplier_price :: real
  base_markup_percent :: real
  adjusted_markup_percent :: real
  selling_price :: real
  final_price :: real
  profit_margin :: real
  cost_breakdown :: "(string \<times> real) list"

text \<open>
  A price band \<open>(min_price, max_price, markup)\<close>; the upper bound \<open>None\<close> stands for
  \<open>float('inf')\<close>.
\<close>

type_synonym tier = "real \<times> real option \<times> real"

definition BASE_MARKUP_TIERS :: "tier list" where
  "BASE_MARKUP_TIERS =
     [(100, Some 299, 0.60),
      (300, Some 699, 0.45),
      (700, Some 1199, 0.35),
      (1200, Some 2000, 0.25),
      (2001, None, 0.20)]"

definition CATEGORY_ADJUSTMENTS :: "(ProductCategory \<times> real) list" where
  "CATEGORY_ADJUSTMENTS =
     [(ELECTRONICS, 0.85), (FASHION, 1.15), (HOME_KITCHEN, 1.0), (BEAUTY, 1.2),
      (SPORTS, 0.9), (BOOKS, 0.7), (TOYS, 1.1), (GENERIC, 1.0)]"

definition COMPETITION_ADJUSTMENTS :: "(CompetitionLevel \<times> real) list" where
  "COMPETITION_ADJUSTMENTS =
     [(LOW, 1.2), (MEDIUM, 1.0), (HIGH, 0.85), (VERY_HIGH, 0.7)]"

subsection \<open>Python primitives\<close>

text \<open>\<open>d[k]\<close> on a dict: the value, or \<open>KeyError\<close>.\<close>

definition dict_getitem :: "('k \<times> 'v) list \<Rightarrow> 'k \<Rightarrow> error + 'v" where
  "dict_getitem d k = (case map_of d k of None \<Rightarrow> Inl KeyError | Some v \<Rightarrow> Inr v)"

text \<open>\<open>a / b\<close> on floats: \<open>ZeroDivisionError\<close> when the divisor is zero.\<close>

definition py_truediv :: "real \<Rightarrow> real \<Rightarrow> error + real" where
  "py_truediv a b = (if b = 0 then Inl ZeroDivisionError else Inr (a / b))"

text \<open>\<open>sum(xs)\<close>: starts from 0 and adds from the left.\<close>

definition py_sum :: "real list \<Rightarrow> real" where
  "py_sum xs = foldl (+) 0 xs"

text \<open>\<open>x <= max_price\<close>, where \<open>max_price\<close> may be \<open>float('inf')\<close>.\<close>

fun le_bound :: "real \<Rightarrow> real option \<Rightarrow> bool" where
  "le_bound x None = True"
| "le_bound x (Some m) = (x \<le> m)"

subsection \<open>get_base_markup\<close>

text \<open>
  The \<open>for\<close> loop over the bands, returning at the first band that holds the price;
  \<open>None\<close> when the loop ends without a \<open>return\<close>.
\<close>

fun first_tier :: "tier list \<Rightarrow> real \<Rightarrow> real option" where
  "first_tier [] p = None"
| "first_tier ((min_price, max_price, markup) # ts) p =
     (if min_price \<le> p \<and> le_bound p max_price then Some markup else first_tier ts p)"

definition get_base_markup :: "real \<Rightarrow> real" where
  "get_base_markup p =
     (case first_tier BASE_MARKUP_TIERS p of
        Some markup \<Rightarrow> markup
      | None \<Rightarrow> (if p < 100 then 0.70 else 0.15))"

subsection \<open>calculate_adjusted_markup\<close>

definition calculate_adjusted_markup ::
  "real \<Rightarrow> ProductCategory \<Rightarrow> CompetitionLevel \<Rightarrow> bool \<Rightarrow> error + real" where
  "calculate_adjusted_markup base_markup category competition has_unique_value =
     (let adjusted_markup = base_markup
      in case dict_getitem CATEGORY_ADJUSTMENTS category of
           Inl e \<Rightarrow> Inl e
         | Inr category_adjustment \<Rightarrow>
             (let adjusted_markup = adjusted_markup * category_adjustment
              in case dict_getitem COMPETITION_ADJUSTMENTS competition of
                   Inl e \<Rightarrow> Inl e
                 | Inr competition_adjustment \<Rightarrow>
                     (let adjusted_markup = adjusted_markup * competition_adjustment;
                          adjusted_markup =
                            (if has_unique_value then adjusted_markup * 1.15
                             else adjusted_markup)
                      in Inr (max adjusted_markup 0.15))))"

subsection \<open>calculate_total_costs\<close>

text \<open>
  The dict starts empty and gets five stores; \<open>AList.update\<close> is the store of a Python
  dict (a new key goes last, a present key keeps its place). The first argument is the
  supplier price, which the body never reads.
\<close>

definition calculate_total_costs :: "CostFactors \<Rightarrow> real \<Rightarrow> real \<Rightarrow> (string \<times> real) list" where
  "calculate_total_costs cf sp selling =
     (let costs = [];
          costs = AList.update ''payment_gateway'' (selling * payment_gateway_fee cf) costs;
          costs = AList.update ''platform_fee'' (selling * platform_fee cf) costs;
          costs = AList.update ''packaging'' (packaging_cost cf) costs;
          costs = AList.update ''returns_buffer'' (selling * returns_buffer cf) costs;
          costs = AList.update ''gst'' (selling * gst_rate cf) costs
      in costs)"

subsection \<open>apply_psychological_pricing\<close>

text \<open>
  The divisors 10 and 100 are literals, so these divisions cannot raise. Every branch
  returns a Python integer.
\<close>

definition apply_psychological_pricing :: "real \<Rightarrow> int" where
  "apply_psychological_pricing price =
     (if price < 100 then \<lfloor>price / 10\<rfloor> * 10 + 9
      else if price < 1000 then \<lfloor>price / 100\<rfloor> * 100 + 99
      else (let hundreds = \<lfloor>price / 100\<rfloor>
            in if hundreds mod 10 < 5 then hundreds * 100 - 1
               else (hundreds - hundreds mod 10 + 4) * 100 + 99))"

subsection \<open>calculate_price\<close>

text \<open>
  Step 7 is the one division whose divisor is not a literal; it is written with
  \<open>py_truediv\<close>, so that a division by zero would be the result \<open>Inl ZeroDivisionError\<close>.
\<close>

definition calculate_price ::
  "CostFactors \<Rightarrow> real \<Rightarrow> ProductCategory \<Rightarrow> CompetitionLevel \<Rightarrow> bool \<Rightarrow> bool
     \<Rightarrow> error + PricingResult" where
  "calculate_price cf sp category competition has_unique_value apply_psychological =
     (let base_markup = get_base_markup sp
      in case calculate_adjusted_markup base_markup category competition has_unique_value of
           Inl e \<Rightarrow> Inl e
         | Inr adjusted_markup \<Rightarrow>
             (let selling = sp * (1 + adjusted_markup);
                  breakdown = calculate_total_costs cf sp selling;
                  total_additional_costs = py_sum (map snd breakdown);
                  adjusted_selling_price = selling + total_additional_costs;
                  final = (if apply_psychological
                           then real_of_int (apply_psychological_pricing adjusted_selling_price)
                           else adjusted_selling_price);
                  profit = final - sp - total_additional_costs
              in case (if final > 0
                       then (case py_truediv profit final of
                               Inl e \<Rightarrow> Inl e
                             | Inr q \<Rightarrow> Inr (q * 100))
                       else Inr 0) of
                   Inl e \<Rightarrow> Inl e
                 | Inr margin \<Rightarrow>
                     Inr \<lparr>supplier_price = sp,
                          base_markup_percent = base_markup * 100,
                          adjusted_markup_percent = adjusted_markup * 100,
                          selling_price = selling,
                          final_price = final,
                          profit_margin = margin,
                          cost_breakdown = breakdown\<rparr>))"

subsection \<open>bulk_calculate\<close>

text \<open>
  A product descriptor is a dict of which the loop reads four keys; each is a field
  that is present or absent. \<open>product['supplier_price']\<close> raises \<open>KeyError\<close> when the
  key is absent, \<open>product.get(k, d)\<close> gives the default \<open>d\<close>.
\<close>

record product =
  product_supplier_price :: "real option"
  product_category :: "string option"
  product_competition :: "string option"
  product_has_unique_value :: "bool option"

definition dict_get :: "'a option \<Rightarrow> 'a \<Rightarrow> 'a" where
  "dict_get v d = (case v of None \<Rightarrow> d | Some x \<Rightarrow> x)"

text \<open>
  \<open>ProductCategory(s)\<close> and \<open>CompetitionLevel(s)\<close>: the member whose value is \<open>s\<close>, or
  \<open>ValueError\<close>.
\<close>

definition ProductCategory_of_value :: "string \<Rightarrow> error + ProductCategory" where
  "ProductCategory_of_value s =
     (if s = ''electronics'' then Inr ELECTRONICS
      else if s = ''fashion'' then Inr FASHION
      else if s = ''home_kitchen'' then Inr HOME_KITCHEN
      else if s = ''beauty'' then Inr BEAUTY
      else if s = ''sports'' then Inr SPORTS
      else if s = ''books'' then Inr BOOKS
      else if s = ''toys'' then Inr TOYS
      else if s = ''generic'' then Inr GENERIC
      else Inl ValueError)"

definition CompetitionLevel_of_value :: "string \<Rightarrow> error + CompetitionLevel" where
  "CompetitionLevel_of_value s =
     (if s = ''low'' then Inr LOW
      else if s = ''medium'' then Inr MEDIUM
      else if s = ''high'' then Inr HIGH
      else if s = ''very_high'' then Inr VERY_HIGH
      else Inl ValueError)"

text \<open>
  One pass of the loop body: the arguments of the call are evaluated from left to
  right, and the first exception leaves the loop.
\<close>

definition bulk_item :: "CostFactors \<Rightarrow> product \<Rightarrow> error + PricingResult" where
  "bulk_item cf p =
     (case product_supplier_price p of
        None \<Rightarrow> Inl KeyError
      | Some sp \<Rightarrow>
          (case ProductCategory_of_value (dict_get (product_category p) ''generic'') of
             Inl e \<Rightarrow> Inl e
           | Inr category \<Rightarrow>
               (case CompetitionLevel_of_value (dict_get (product_competition p) ''medium'') of
                  Inl e \<Rightarrow> Inl e
                | Inr competition \<Rightarrow>
                    calculate_price cf sp category competition
                      (dict_get (product_has_unique_value p) False) True)))"

text \<open>The loop, with the list \<open>results\<close> that each pass appends to.\<close>

fun bulk_loop :: "CostFactors \<Rightarrow> product list \<Rightarrow> PricingResult list
    \<Rightarrow> error + PricingResult list" where
  "bulk_loop cf [] results = Inr results"
| "bulk_loop cf (p # ps) results =
     (case bulk_item cf p of
        Inl e \<Rightarrow> Inl e
      | Inr r \<Rightarrow> bulk_loop cf ps (results @ [r]))"

definition bulk_calculate :: "CostFactors \<Rightarrow> product list \<Rightarrow> error + PricingResult list" where
  "bulk_calculate cf products = bulk_loop cf products []"

subsection \<open>calculate_price on the float range\<close>

text \<open>
  A Python float is a finite number, an infinity or \<open>nan\<close>. An operation whose exact
  result is at or beyond \<open>2 ^ 1024 - 2 ^ 970\<close> (the largest float plus half a unit in its
  last place) returns an infinity and raises nothing; infinities and \<open>nan\<close> flow through
  \<open>+\<close>, \<open>-\<close>, \<open>*\<close> and \<open>/\<close> by the IEEE rules; a comparison with \<open>nan\<close> is false;
  \<open>/\<close> raises \<open>ZeroDivisionError\<close> on a zero divisor whatever the dividend;
  \<open>math.floor\<close> raises \<open>OverflowError\<close> on an infinity and \<open>ValueError\<close> on \<open>nan\<close>; and
  an integer too large for a float raises \<open>OverflowError\<close> when arithmetic converts it.
  A finite result is the exact one, and the sign of a zero is not kept.
\<close>

datatype pyfloat = Fin real | PosInf | NegInf | NaN

definition float_overflow :: real where
  "float_overflow = 2 ^ 1024 - 2 ^ 970"

definition to_float :: "real \<Rightarrow> pyfloat" where
  "to_float x =
     (if float_overflow \<le> x then PosInf
      else if x \<le> - float_overflow then NegInf
      else Fin x)"

text \<open>The sign of a float, and the infinity (or \<open>nan\<close>) of a product of signs.\<close>

fun fl_sign :: "pyfloat \<Rightarrow> real" where
  "fl_sign (Fin a) = sgn a"
| "fl_sign PosInf = 1"
| "fl_sign NegInf = - 1"
| "fl_sign NaN = 0"

definition inf_of_sign :: "real \<Rightarrow> pyfloat" where
  "inf_of_sign s = (if 0 < s then PosInf else if s < 0 then NegInf else NaN)"

fun fl_mult :: "pyfloat \<Rightarrow> pyfloat \<Rightarrow> pyfloat" where
  "fl_mult (Fin a) (Fin b) = to_float (a * b)"
| "fl_mult NaN y = NaN"
| "fl_mult x NaN = NaN"
| "fl_mult x y = inf_of_sign (fl_sign x * fl_sign y)"

fun fl_add :: "pyfloat \<Rightarrow> pyfloat \<Rightarrow> pyfloat" where
  "fl_add (Fin a) (Fin b) = to_float (a + b)"
| "fl_add NaN y = NaN"
| "fl_add x NaN = NaN"
| "fl_add PosInf NegInf = NaN"
| "fl_add NegInf PosInf = NaN"
| "fl_add PosInf y = PosInf"
| "fl_add x PosInf = PosInf"
| "fl_add NegInf y = NegInf"
| "fl_add x NegInf = NegInf"

fun fl_neg :: "pyfloat \<Rightarrow> pyfloat" where
  "fl_neg (Fin a) = Fin (- a)"
| "fl_neg PosInf = NegInf"
| "fl_neg NegInf = PosInf"
| "fl_neg NaN = NaN"

definition fl_sub :: "pyfloat \<Rightarrow> pyfloat \<Rightarrow> pyfloat" where
  "fl_sub x y = fl_add x (fl_neg y)"

text \<open>
  \<open>x / y\<close>: a finite dividend over an infinity is 0, an infinity over an infinity is
  \<open>nan\<close>.
\<close>

fun fl_truediv :: "pyfloat \<Rightarrow> pyfloat \<Rightarrow> error + pyfloat" where
  "fl_truediv x (Fin b) =
     (if b = 0 then Inl ZeroDivisionError
      else case x of
             Fin a \<Rightarrow> Inr (to_float (a / b))
           | NaN \<Rightarrow> Inr NaN
           | _ \<Rightarrow> Inr (inf_of_sign (fl_sign x * sgn b)))"
| "fl_truediv x NaN = Inr NaN"
| "fl_truediv (Fin a) y = Inr (Fin 0)"
| "fl_truediv x y = Inr NaN"

text \<open>\<open>x < y\<close>.\<close>

fun fl_less :: "pyfloat \<Rightarrow> pyfloat \<Rightarrow> bool" where
  "fl_less (Fin a) (Fin b) = (a < b)"
| "fl_less NaN y = False"
| "fl_less x NaN = False"
| "fl_less x NegInf = False"
| "fl_less PosInf y = False"
| "fl_less x y = True"

text \<open>\<open>math.floor(x)\<close>, and the conversion of an integer operand to a float.\<close>

fun py_floor :: "pyfloat \<Rightarrow> error + int" where
  "py_floor (Fin a) = Inr \<lfloor>a\<rfloor>"
| "py_floor NaN = Inl ValueError"
| "py_floor x = Inl OverflowError"

definition int_to_float :: "int \<Rightarrow> error + pyfloat" where
  "int_to_float n =
     (if float_overflow \<le> \<bar>real_of_int n\<bar> then Inl OverflowError
      else Inr (Fin (real_of_int n)))"

text \<open>\<open>math.floor(price / d)\<close> for a literal divisor \<open>d\<close>.\<close>

definition floor_div :: "pyfloat \<Rightarrow> real \<Rightarrow> error + int" where
  "floor_div price d =
     (case fl_truediv price (Fin d) of Inl e \<Rightarrow> Inl e | Inr q \<Rightarrow> py_floor q)"

text \<open>
  \<open>apply_psychological_pricing\<close>, \<open>calculate_total_costs\<close>, \<open>sum\<close> and
  \<open>calculate_price\<close> once more, line by line, on these floats. The markups are products
  of table entries below 2, so \<open>1 + adjusted_markup\<close> and the tier comparisons stay on
  the reals. In step 7 the integer \<open>final_price\<close> of the rounding is converted to a
  float by the subtraction.
\<close>

definition apply_psychological_pricing_float :: "pyfloat \<Rightarrow> error + int" where
  "apply_psychological_pricing_float price =
     (if fl_less price (Fin 100) then
        (case floor_div price 10 of Inl e \<Rightarrow> Inl e | Inr n \<Rightarrow> Inr (n * 10 + 9))
      else if fl_less price (Fin 1000) then
        (case floor_div price 100 of Inl e \<Rightarrow> Inl e | Inr n \<Rightarrow> Inr (n * 100 + 99))
      else
        (case floor_div price 100 of
           Inl e \<Rightarrow> Inl e
         | Inr hundreds \<Rightarrow>
             Inr (if hundreds mod 10 < 5 then hundreds * 100 - 1
                  else (hundreds - hundreds mod 10 + 4) * 100 + 99)))"

definition calculate_total_costs_float :: "CostFactors \<Rightarrow> pyfloat \<Rightarrow> (string \<times> pyfloat) list" where
  "calculate_total_costs_float cf selling =
     (let costs = [];
          costs = AList.update ''payment_gateway''
                    (fl_mult selling (Fin (payment_gateway_fee cf))) costs;
          costs = AList.update ''platform_fee'' (fl_mult selling (Fin (platform_fee cf))) costs;
          costs = AList.update ''packaging'' (Fin (packaging_cost cf)) costs;
          costs = AList.update ''returns_buffer''
                    (fl_mult selling (Fin (returns_buffer cf))) costs;
          costs = AList.update ''gst'' (fl_mult selling (Fin (gst_rate cf))) costs
      in costs)"

definition py_sum_float :: "pyfloat list \<Rightarrow> pyfloat" where
  "py_sum_float xs = foldl fl_add (Fin 0) xs"

record FloatPricingResult =
  float_supplier_price :: pyfloat
  float_base_markup_percent :: pyfloat
  float_adjusted_markup_percent :: pyfloat
  float_selling_price :: pyfloat
  float_final_price :: pyfloat
  float_profit_margin :: pyfloat
  float_cost_breakdown :: "(string \<times> pyfloat) list"

definition calculate_price_float ::
  "CostFactors \<Rightarrow> real \<Rightarrow> ProductCategory \<Rightarrow> CompetitionLevel \<Rightarrow> bool \<Rightarrow> bool
     \<Rightarrow> error + FloatPricingResult" where
  "calculate_price_float cf sp category competition has_unique_value apply_psychological =
     (let base_markup = get_base_markup sp
      in case calculate_adjusted_markup base_markup category competition has_unique_value of
           Inl e \<Rightarrow> Inl e
         | Inr adjusted_markup \<Rightarrow>
             (let selling = fl_mult (Fin sp) (Fin (1 + adjusted_markup));
                  breakdown = calculate_total_costs_float cf selling;
                  total_additional_costs = py_sum_float (map snd breakdown);
                  adjusted_selling_price = fl_add selling total_additional_costs
              in case (if apply_psychological
                       then (case apply_psychological_pricing_float adjusted_selling_price of
                               Inl e \<Rightarrow> Inl e
                             | Inr n \<Rightarrow> int_to_float n)
                       else Inr adjusted_selling_price) of
                   Inl e \<Rightarrow> Inl e
                 | Inr final \<Rightarrow>
                     (let profit = fl_sub (fl_sub final (Fin sp)) total_additional_costs
                      in case (if fl_less (Fin 0) final
                               then (case fl_truediv profit final of
                                       Inl e \<Rightarrow> Inl e
                                     | Inr q \<Rightarrow> Inr (fl_mult q (Fin 100)))
                               else Inr (Fin 0)) of
                           Inl e \<Rightarrow> Inl e
                         | Inr margin \<Rightarrow>
                             Inr \<lparr>float_supplier_price = Fin sp,
                                  float_base_markup_percent = fl_mult (Fin base_markup) (Fin 100),
                                  float_adjusted_markup_percent =
                                    fl_mult (Fin adjusted_markup) (Fin 100),
                                  float_selling_price = selling,
                                  float_final_price = final,
                                  float_profit_margin = margin,
                                  float_cost_breakdown = breakdown\<rparr>)))"

subsection \<open>Definitions for the statements\<close>

text \<open>A price lies in a band: the test of the loop in \<open>get_base_markup\<close>.\<close>

definition in_tier :: "real \<Rightarrow> tier \<Rightarrow> bool" where
  "in_tier p t =
     (case t of (min_price, max_price, markup) \<Rightarrow> min_price \<le> p \<and> le_bound p max_price)"

text \<open>
  The two multiplier tables read as functions of the enumeration, and the adjusted
  markup as section 4.2 of the specification words it: the product of the base markup
  and the multipliers, with 1.15 more for a unique value, not below 0.15.
\<close>

fun category_multiplier :: "ProductCategory \<Rightarrow> real" where
  "category_multiplier ELECTRONICS = 0.85"
| "category_multiplier FASHION = 1.15"
| "category_multiplier HOME_KITCHEN = 1.0"
| "category_multiplier BEAUTY = 1.2"
| "category_multiplier SPORTS = 0.9"
| "category_multiplier BOOKS = 0.7"
| "category_multiplier TOYS = 1.1"
| "category_multiplier GENERIC = 1.0"

fun competition_multiplier :: "CompetitionLevel \<Rightarrow> real" where
  "competition_multiplier LOW = 1.2"
| "competition_multiplier MEDIUM = 1.0"
| "competition_multiplier HIGH = 0.85"
| "competition_multiplier VERY_HIGH = 0.7"

definition spec_adjusted_markup ::
  "real \<Rightarrow> ProductCategory \<Rightarrow> CompetitionLevel \<Rightarrow> bool \<Rightarrow> real" where
  "spec_adjusted_markup base_markup category competition has_unique_value =
     max (base_markup * category_multiplier category * competition_multiplier competition
            * (if has_unique_value then 1.15 else 1)) 0.15"

text \<open>
  The branch of \<open>apply_psychological_pricing\<close> for prices from 1000 on, as a function
  of \<open>hundreds\<close>, and the whole function as one of the integer \<open>floor (price / 10)\<close>,
  which decides both the band and the result. The proofs about the rounding go through
  these two.
\<close>

definition upper_band :: "int \<Rightarrow> int" where
  "upper_band hundreds =
     (if hundreds mod 10 < 5 then hundreds * 100 - 1
      else (hundreds - hundreds mod 10 + 4) * 100 + 99)"

definition rounding_of_tens :: "int \<Rightarrow> int" where
  "rounding_of_tens t =
     (if t < 10 then t * 10 + 9
      else if t < 100 then t div 10 * 100 + 99
      else upper_band (t div 10))"

text \<open>
  The stages of the pipeline as section 4.5 of the specification words them: the selling
  price, the total of the five costs, and the final price with or without rounding.
\<close>

definition spec_selling_price ::
  "real \<Rightarrow> ProductCategory \<Rightarrow> CompetitionLevel \<Rightarrow> bool \<Rightarrow> real" where
  "spec_selling_price sp category competition has_unique_value =
     sp * (1 + spec_adjusted_markup (get_base_markup sp) category competition has_unique_value)"

definition spec_total_costs ::
  "CostFactors \<Rightarrow> real \<Rightarrow> ProductCategory \<Rightarrow> CompetitionLevel \<Rightarrow> bool \<Rightarrow> real" where
  "spec_total_costs cf sp category competition has_unique_value =
     (let selling = spec_selling_price sp category competition has_unique_value
      in selling * payment_gateway_fee cf + selling * platform_fee cf + packaging_cost cf
           + selling * returns_buffer cf + selling * gst_rate cf)"

definition spec_final_price ::
  "CostFactors \<Rightarrow> real \<Rightarrow> ProductCategory \<Rightarrow> CompetitionLevel \<Rightarrow> bool \<Rightarrow> bool \<Rightarrow> real" where
  "spec_final_price cf sp category competition has_unique_value apply_psychological =
     (let raw = spec_selling_price sp category competition has_unique_value
                  + spec_total_costs cf sp category competition has_unique_value
      in if apply_psychological then real_of_int (apply_psychological_pricing raw) else raw)"

text \<open>
  A descriptor that \<open>bulk_calculate\<close> can price: it has a supplier price, and its
  category and competition strings (or their defaults) name members of the enumerations.
\<close>

definition resolvable :: "product \<Rightarrow> bool" where
  "resolvable p =
     (product_supplier_price p \<noteq> None \<and>
      \<not> isl (ProductCategory_of_value (dict_get (product_category p) ''generic'')) \<and>
      \<not> isl (CompetitionLevel_of_value (dict_get (product_competition p) ''medium'')))"

text \<open>
  Three descriptors in the style of the list in \<open>test_bulk_processing\<close>; the last one
  leaves every optional key out.
\<close>

definition example_products :: "product list" where
  "example_products =
     [\<lparr>product_supplier_price = Some 150, product_category = Some ''electronics'',
       product_competition = Some ''high'', product_has_unique_value = None\<rparr>,
      \<lparr>product_supplier_price = Some 900, product_category = Some ''beauty'',
       product_competition = Some ''low'', product_has_unique_value = Some True\<rparr>,
      \<lparr>product_supplier_price = Some 1600, product_category = None,
       product_competition = None, product_has_unique_value = None\<rparr>]"


text \<open>
  A bound for the raw price that keeps every intermediate value of \<open>calculate_price\<close>
  well inside the float range.
\<close>

definition float_safe_bound :: real where
  "float_safe_bound = 10 ^ 307"

section \<open>The tier resolver\<close>

lemma first_tier_filter:
  "first_tier ts p =
     (case filter (in_tier p) ts of [] \<Rightarrow> None | (lo, hi, m) # rest \<Rightarrow> Some m)"
  by (induction ts p rule: first_tier.induct) (simp_all add: in_tier_def)

lemma first_tier_bands:
  "first_tier BASE_MARKUP_TIERS p =
     (if 100 \<le> p \<and> p \<le> 299 then Some 0.60
      else if 300 \<le> p \<and> p \<le> 699 then Some 0.45
      else if 700 \<le> p \<and> p \<le> 1199 then Some 0.35
      else if 1200 \<le> p \<and> p \<le> 2000 then Some 0.25
      else if 2001 \<le> p then Some 0.20
      else None)"
  by (simp add: BASE_MARKUP_TIERS_def)

text \<open>
  C1. The tier resolver returns the markup of the first band, in the order of the table,
  whose inclusive bounds hold the price: 0.60 on [100, 299], 0.45 on [300, 699], 0.35 on
  [700, 1199], 0.25 on [1200, 2000], 0.20 from 2001 on; below 100 it returns the 0.70
  fallback.
\<close>

theorem get_base_markup_bands:
  "(get_base_markup p =
      (case filter (in_tier p) BASE_MARKUP_TIERS of
         [] \<Rightarrow> (if p < 100 then 0.70 else 0.15)
       | (lo, hi, m) # rest \<Rightarrow> m)) \<and>
   (100 \<le> p \<and> p \<le> 299 \<longrightarrow> get_base_markup p = 0.60) \<and>
   (300 \<le> p \<and> p \<le> 699 \<longrightarrow> get_base_markup p = 0.45) \<and>
   (700 \<le> p \<and> p \<le> 1199 \<longrightarrow> get_base_markup p = 0.35) \<and>
   (1200 \<le> p \<and> p \<le> 2000 \<longrightarrow> get_base_markup p = 0.25) \<and>
   (2001 \<le> p \<longrightarrow> get_base_markup p = 0.20) \<and>
   (p < 100 \<longrightarrow> get_base_markup p = 0.70)"
proof -
  have "get_base_markup p =
      (case filter (in_tier p) BASE_MARKUP_TIERS of
         [] \<Rightarrow> (if p < 100 then 0.70 else 0.15)
       | (lo, hi, m) # rest \<Rightarrow> m)"
    unfolding get_base_markup_def first_tier_filter
    by (simp split: list.splits)
  moreover have "100 \<le> p \<and> p \<le> 299 \<longrightarrow> get_base_markup p = 0.60"
    by (simp add: get_base_markup_def first_tier_bands)
  moreover have "300 \<le> p \<and> p \<le> 699 \<longrightarrow> get_base_markup p = 0.45"
    by (simp add: get_base_markup_def first_tier_bands)
  moreover have "700 \<le> p \<and> p \<le> 1199 \<longrightarrow> get_base_markup p = 0.35"
    by (simp add: get_base_markup_def first_tier_bands)
  moreover have "1200 \<le> p \<and> p \<le> 2000 \<longrightarrow> get_base_markup p = 0.25"
    by (simp add: get_base_markup_def first_tier_bands)
  moreover have "2001 \<le> p \<longrightarrow> get_base_markup p = 0.20"
    by (simp add: get_base_markup_def first_tier_bands)
  moreover have "p < 100 \<longrightarrow> get_base_markup p = 0.70"
    by (simp add: get_base_markup_def first_tier_bands)
  ultimately show ?thesis by blast
qed

theorem get_base_markup_bands_witness:
  "((100::real) \<le> 150 \<and> (150::real) \<le> 299) \<and> get_base_markup 150 = 0.60 \<and>
   ((300::real) \<le> 500 \<and> (500::real) \<le> 699) \<and> get_base_markup 500 = 0.45 \<and>
   ((700::real) \<le> 900 \<and> (900::real) \<le> 1199) \<and> get_base_markup 900 = 0.35 \<and>
   ((1200::real) \<le> 1600 \<and> (1600::real) \<le> 2000) \<and> get_base_markup 1600 = 0.25 \<and>
   (2001::real) \<le> 2500 \<and> get_base_markup 2500 = 0.20 \<and>
   (50::real) < 100 \<and> get_base_markup 50 = 0.70"
  using get_base_markup_bands [of 150] get_base_markup_bands [of 500]
    get_base_markup_bands [of 900] get_base_markup_bands [of 1600]
    get_base_markup_bands [of 2500] get_base_markup_bands [of 50]
  by simp

text \<open>
  A price that is a whole number of rupees and at least 100 is in one of the five bands.
\<close>

lemma first_tier_whole_price:
  "100 \<le> n \<Longrightarrow> first_tier BASE_MARKUP_TIERS (real_of_int n) \<noteq> None"
proof -
  assume "100 \<le> n"
  then have "n \<le> 299 \<or> (300 \<le> n \<and> n \<le> 699) \<or> (700 \<le> n \<and> n \<le> 1199)
      \<or> (1200 \<le> n \<and> n \<le> 2000) \<or> 2001 \<le> n"
    by arith
  then show ?thesis
    using \<open>100 \<le> n\<close> by (elim disjE) (simp_all add: first_tier_bands)
qed

text \<open>
  C9. The claim: from 100 on, every price is in one of the five bands, so the 0.15
  branch is never taken. The bounds of the bands are whole numbers and the price is a
  float: 2000.5 lies above the fourth band and below the fifth, the loop ends without a
  match, and the 0.15 branch is taken. The same holds at 299.5, 699.5 and 1199.5.
\<close>

theorem get_base_markup_gap:
  "(100::real) \<le> 2000.5 \<and> first_tier BASE_MARKUP_TIERS 2000.5 = None \<and>
   get_base_markup 2000.5 = 0.15 \<and> get_base_markup 299.5 = 0.15 \<and>
   get_base_markup 699.5 = 0.15 \<and> get_base_markup 1199.5 = 0.15"
  by (simp add: get_base_markup_def first_tier_bands)

section \<open>Psychological rounding\<close>

subsection \<open>The rounding on integers\<close>

lemma floor_hundreds: "\<lfloor>price / 100\<rfloor> = \<lfloor>price / 10\<rfloor> div 10" for price :: real
proof -
  have "\<lfloor>price / 10 / real_of_int 10\<rfloor> = \<lfloor>price / 10\<rfloor> div 10"
    by (rule floor_divide_real_eq_div) simp
  then show ?thesis by simp
qed

lemma tens_less_iff: "\<lfloor>price / 10\<rfloor> < n \<longleftrightarrow> price < 10 * real_of_int n" for price :: real
  by (simp add: floor_less_iff pos_divide_less_eq mult.commute)

lemma apply_psychological_pricing_tens:
  "apply_psychological_pricing price = rounding_of_tens \<lfloor>price / 10\<rfloor>"
proof -
  have a: "price < 100 \<longleftrightarrow> \<lfloor>price / 10\<rfloor> < 10" using tens_less_iff [of price 10] by simp
  have b: "price < 1000 \<longleftrightarrow> \<lfloor>price / 10\<rfloor> < 100" using tens_less_iff [of price 100] by simp
  show ?thesis
    unfolding apply_psychological_pricing_def rounding_of_tens_def upper_band_def
      floor_hundreds a b
    by (simp add: Let_def)
qed

lemma tens_of_int: "\<lfloor>real_of_int n / 10\<rfloor> = n div 10"
  using floor_divide_of_int_eq [of n 10] by simp

lemma upper_band_decade:
  "upper_band h =
     (if h mod 10 < 5 then 1000 * (h div 10) + 100 * (h mod 10) - 1
      else 1000 * (h div 10) + 499)"
proof -
  have m: "h - h mod 10 = 10 * (h div 10)" by (simp add: minus_mod_eq_mult_div)
  have "h = 10 * (h div 10) + h mod 10" by simp
  then have a: "h * 100 = 1000 * (h div 10) + 100 * (h mod 10)" by linarith
  have b: "(h - h mod 10 + 4) * 100 = 1000 * (h div 10) + 400" unfolding m by simp
  show ?thesis unfolding upper_band_def a b by simp
qed

lemma upper_band_mono:
  assumes "h \<le> h'"
  shows "upper_band h \<le> upper_band h'"
proof -
  define k j k' j' where "k = h div 10" and "j = h mod 10" and "k' = h' div 10" and "j' = h' mod 10"
  have j: "0 \<le> j" "j < 10" and j': "0 \<le> j'" "j' < 10" by (simp_all add: j_def j'_def)
  have hk: "h = 10 * k + j" "h' = 10 * k' + j'" by (simp_all add: k_def j_def k'_def j'_def)
  have kk: "k \<le> k'" unfolding k_def k'_def using assms by (rule zdiv_mono1) simp
  have u: "upper_band h = (if j < 5 then 1000 * k + 100 * j - 1 else 1000 * k + 499)"
    and u': "upper_band h' = (if j' < 5 then 1000 * k' + 100 * j' - 1 else 1000 * k' + 499)"
    by (simp_all add: upper_band_decade k_def j_def k'_def j'_def)
  show ?thesis
  proof (cases "k = k'")
    case True
    then have "j \<le> j'" using assms hk by linarith
    then show ?thesis using True j j' unfolding u u' by (cases "j < 5"; cases "j' < 5"; simp)
  next
    case False
    then have "k + 1 \<le> k'" using kk by linarith
    then show ?thesis using j j' unfolding u u' by (cases "j < 5"; cases "j' < 5"; simp)
  qed
qed

lemma upper_band_lower: "10 \<le> h \<Longrightarrow> 999 \<le> upper_band h"
  using upper_band_mono [of 10 h] by (simp add: upper_band_def)

lemma rounding_of_tens_mono:
  assumes st: "s \<le> t"
  shows "rounding_of_tens s \<le> rounding_of_tens t"
proof -
  have d: "s div 10 \<le> t div 10" using st by (rule zdiv_mono1) simp
  consider "t < 10" | "s < 10" "10 \<le> t" "t < 100" | "s < 10" "100 \<le> t"
    | "10 \<le> s" "t < 100" | "10 \<le> s" "s < 100" "100 \<le> t" | "100 \<le> s"
    by linarith
  then show ?thesis
  proof cases
    case 1
    then show ?thesis using st by (simp add: rounding_of_tens_def)
  next
    case 2
    have "10 div 10 \<le> t div 10" using \<open>10 \<le> t\<close> by (rule zdiv_mono1) simp
    then show ?thesis using 2 by (simp add: rounding_of_tens_def)
  next
    case 3
    have "100 div 10 \<le> t div 10" using \<open>100 \<le> t\<close> by (rule zdiv_mono1) simp
    then have "999 \<le> rounding_of_tens t"
      using 3 upper_band_lower [of "t div 10"] by (simp add: rounding_of_tens_def)
    moreover have "rounding_of_tens s \<le> 99" using 3 by (simp add: rounding_of_tens_def)
    ultimately show ?thesis by linarith
  next
    case 4
    then show ?thesis using st d by (simp add: rounding_of_tens_def)
  next
    case 5
    have "100 div 10 \<le> t div 10" using \<open>100 \<le> t\<close> by (rule zdiv_mono1) simp
    then have "999 \<le> rounding_of_tens t"
      using 5 upper_band_lower [of "t div 10"] by (simp add: rounding_of_tens_def)
    moreover have "s div 10 \<le> 99 div 10" using \<open>s < 100\<close> by (intro zdiv_mono1) simp_all
    then have "rounding_of_tens s \<le> 999" using 5 by (simp add: rounding_of_tens_def)
    ultimately show ?thesis by linarith
  next
    case 6
    then have "100 \<le> t" using st by linarith
    then show ?thesis
      using 6 upper_band_mono [OF d] by (simp add: rounding_of_tens_def)
  qed
qed


lemma rounding_of_tens_idem:
  assumes a: "t < 110"
  shows "rounding_of_tens (rounding_of_tens t div 10) = rounding_of_tens t"
proof -
  from a consider "t < 10" | "10 \<le> t" "t < 100" | "100 \<le> t" "t < 110" by linarith
  then show ?thesis
  proof cases
    case 1
    have "(t * 10 + 9) div 10 = t" by simp
    moreover have "rounding_of_tens t = t * 10 + 9" using 1 by (simp add: rounding_of_tens_def)
    ultimately show ?thesis using 1 by simp
  next
    case 2
    define h where "h = t div 10"
    have "10 div 10 \<le> t div 10" using \<open>10 \<le> t\<close> by (rule zdiv_mono1) simp
    moreover have "t div 10 \<le> 99 div 10" using \<open>t < 100\<close> by (intro zdiv_mono1) simp_all
    ultimately have h: "1 \<le> h" "h \<le> 9" by (simp_all add: h_def)
    have r: "rounding_of_tens t = h * 100 + 99"
      using 2 by (simp add: rounding_of_tens_def h_def)
    have "h * 100 + 99 = (h * 10 + 9) * 10 + 9" by simp
    then have d: "(h * 100 + 99) div 10 = h * 10 + 9" by simp
    have dd: "(h * 10 + 9) div 10 = h" by simp
    have "rounding_of_tens (h * 10 + 9) = h * 100 + 99"
      using h by (simp add: rounding_of_tens_def dd)
    then show ?thesis by (simp add: r d)
  next
    case 3
    have "100 div 10 \<le> t div 10" using \<open>100 \<le> t\<close> by (rule zdiv_mono1) simp
    moreover have "t div 10 \<le> 109 div 10" using \<open>t < 110\<close> by (intro zdiv_mono1) simp_all
    ultimately have "t div 10 = 10" by simp
    then have "rounding_of_tens t = 999"
      using 3 by (simp add: rounding_of_tens_def upper_band_def)
    moreover have "rounding_of_tens 99 = 999" by (simp add: rounding_of_tens_def)
    ultimately show ?thesis by simp
  qed
qed

lemma rounding_of_tens_999:
  assumes "100 \<le> t" "t < 110"
  shows "rounding_of_tens t = 999"
proof -
  have "100 div 10 \<le> t div 10" using \<open>100 \<le> t\<close> by (rule zdiv_mono1) simp
  moreover have "t div 10 \<le> 109 div 10" using \<open>t < 110\<close> by (intro zdiv_mono1) simp_all
  ultimately have "t div 10 = 10" by simp
  then show ?thesis using assms by (simp add: rounding_of_tens_def upper_band_def)
qed

lemma rounding_of_tens_pos: "0 \<le> t \<Longrightarrow> 9 \<le> rounding_of_tens t"
  using rounding_of_tens_mono [of 0 t] by (simp add: rounding_of_tens_def)

lemma apply_psychological_pricing_pos:
  assumes "0 < price"
  shows "0 < apply_psychological_pricing price"
proof -
  have "0 \<le> \<lfloor>price / 10\<rfloor>" using assms by simp
  then show ?thesis
    using rounding_of_tens_pos [of "\<lfloor>price / 10\<rfloor>"]
    by (simp add: apply_psychological_pricing_tens)
qed

lemma apply_psychological_pricing_mono:
  "p \<le> q \<Longrightarrow> apply_psychological_pricing p \<le> apply_psychological_pricing q"
  unfolding apply_psychological_pricing_tens
  by (intro rounding_of_tens_mono floor_mono) simp

lemma apply_psychological_pricing_999:
  assumes "1000 \<le> price" "price < 1100"
  shows "apply_psychological_pricing price = 999"
proof -
  have "\<lfloor>price / 10\<rfloor> < 110" using assms tens_less_iff [of price 110] by simp
  moreover have "\<not> \<lfloor>price / 10\<rfloor> < 100" using assms tens_less_iff [of price 100] by simp
  ultimately show ?thesis
    by (simp add: apply_psychological_pricing_tens rounding_of_tens_999)
qed


subsection \<open>The band rules\<close>

text \<open>
  C2. The rounding follows the band rules: below 100 it is
  \<open>floor (price / 10) * 10 + 9\<close>; from 100 and below 1000 it is
  \<open>floor (price / 100) * 100 + 99\<close>; from 1000 on, with \<open>h = floor (price / 100)\<close>, it
  is \<open>h * 100 - 1\<close> when \<open>h mod 10 < 5\<close> and \<open>(h - h mod 10 + 4) * 100 + 99\<close> otherwise.
\<close>

theorem apply_psychological_pricing_bands:
  "(price < 100 \<longrightarrow>
      apply_psychological_pricing price = \<lfloor>price / 10\<rfloor> * 10 + 9) \<and>
   (100 \<le> price \<and> price < 1000 \<longrightarrow>
      apply_psychological_pricing price = \<lfloor>price / 100\<rfloor> * 100 + 99) \<and>
   (1000 \<le> price \<and> \<lfloor>price / 100\<rfloor> mod 10 < 5 \<longrightarrow>
      apply_psychological_pricing price = \<lfloor>price / 100\<rfloor> * 100 - 1) \<and>
   (1000 \<le> price \<and> \<not> \<lfloor>price / 100\<rfloor> mod 10 < 5 \<longrightarrow>
      apply_psychological_pricing price
        = (\<lfloor>price / 100\<rfloor> - \<lfloor>price / 100\<rfloor> mod 10 + 4) * 100 + 99)"
  by (simp add: apply_psychological_pricing_def Let_def)

theorem apply_psychological_pricing_bands_witness:
  "((85::real) < 100 \<and> apply_psychological_pricing 85 = 89) \<and>
   ((100::real) \<le> 750 \<and> (750::real) < 1000 \<and> apply_psychological_pricing 750 = 799) \<and>
   ((1000::real) \<le> 2200 \<and> \<lfloor>(2200::real) / 100\<rfloor> mod 10 < 5
      \<and> apply_psychological_pricing 2200 = 2199) \<and>
   ((1000::real) \<le> 1500 \<and> \<not> \<lfloor>(1500::real) / 100\<rfloor> mod 10 < 5
      \<and> apply_psychological_pricing 1500 = 1499)"
  using apply_psychological_pricing_bands [of 85] apply_psychological_pricing_bands [of 750]
    apply_psychological_pricing_bands [of 2200] apply_psychological_pricing_bands [of 1500]
  by simp

subsection \<open>Rounding twice\<close>

text \<open>
  C5, as claimed: rounding twice gives what rounding once gives, at every price. It
  fails at 2000, where both roundings do what the comments of the source say: the first
  gives 1999, which ends in 999, and the second takes 1999 to 1499, which ends in 499.
\<close>

theorem apply_psychological_pricing_twice_2000:
  "apply_psychological_pricing 2000 = 1999 \<and>
   apply_psychological_pricing (real_of_int (apply_psychological_pricing 2000)) = 1499 \<and>
   apply_psychological_pricing (real_of_int (apply_psychological_pricing 2000))
     \<noteq> apply_psychological_pricing 2000"
  by (simp add: apply_psychological_pricing_def)

text \<open>
  C5, amended: for every price from 0 and below 1100, rounding twice gives what rounding
  once gives.
\<close>

theorem apply_psychological_pricing_idempotent_below_1100:
  assumes "0 \<le> price" "price < 1100"
  shows "apply_psychological_pricing (real_of_int (apply_psychological_pricing price))
       = apply_psychological_pricing price"
proof -
  have "\<lfloor>price / 10\<rfloor> < 110" using assms(2) tens_less_iff [of price 110] by simp
  then show ?thesis
    by (simp add: apply_psychological_pricing_tens tens_of_int rounding_of_tens_idem)
qed

theorem apply_psychological_pricing_idempotent_below_1100_witness:
  "(0::real) \<le> 750 \<and> (750::real) < 1100 \<and>
   apply_psychological_pricing (real_of_int (apply_psychological_pricing 750))
     = apply_psychological_pricing 750 \<and>
   (0::real) \<le> 1050 \<and> (1050::real) < 1100 \<and>
   apply_psychological_pricing (real_of_int (apply_psychological_pricing 1050))
     = apply_psychological_pricing 1050"
  using apply_psychological_pricing_idempotent_below_1100 [of 750]
    apply_psychological_pricing_idempotent_below_1100 [of 1050]
  by simp

text \<open>
  At 1100 the source returns \<open>hundreds * 100 - 1 = 1099\<close> on the line commented
  \<open>End with 999\<close>; the amended statement says nothing about such prices.
\<close>

lemma apply_psychological_pricing_1100: "apply_psychological_pricing 1100 = 1099"
  by (simp add: apply_psychological_pricing_def)

section \<open>The pipeline\<close>

subsection \<open>The table lookups, the costs and the result in closed form\<close>

text \<open>
  Every member of the two enumerations is a key of its table, so neither lookup raises;
  the five stores build the five entries in the order of the source; and
  \<open>calculate_price\<close> always returns a result, which is the record of the stages.
\<close>

lemma category_lookup: "dict_getitem CATEGORY_ADJUSTMENTS c = Inr (category_multiplier c)"
  by (cases c) (simp_all add: dict_getitem_def CATEGORY_ADJUSTMENTS_def)

lemma competition_lookup:
  "dict_getitem COMPETITION_ADJUSTMENTS k = Inr (competition_multiplier k)"
  by (cases k) (simp_all add: dict_getitem_def COMPETITION_ADJUSTMENTS_def)

lemma calculate_adjusted_markup_Inr:
  "calculate_adjusted_markup b c k u = Inr (spec_adjusted_markup b c k u)"
  by (simp add: calculate_adjusted_markup_def spec_adjusted_markup_def
      category_lookup competition_lookup)

lemma spec_adjusted_markup_floor: "0.15 \<le> spec_adjusted_markup b c k u"
  by (simp add: spec_adjusted_markup_def)

lemma calculate_total_costs_eq:
  "calculate_total_costs cf sp selling =
     [(''payment_gateway'', selling * payment_gateway_fee cf),
      (''platform_fee'', selling * platform_fee cf),
      (''packaging'', packaging_cost cf),
      (''returns_buffer'', selling * returns_buffer cf),
      (''gst'', selling * gst_rate cf)]"
  by (simp add: calculate_total_costs_def)

lemma py_sum_costs:
  "py_sum (map snd (calculate_total_costs cf sp selling)) =
     selling * payment_gateway_fee cf + selling * platform_fee cf + packaging_cost cf
       + selling * returns_buffer cf + selling * gst_rate cf"
  by (simp add: calculate_total_costs_eq py_sum_def)

lemma calculate_price_Inr:
  "calculate_price cf sp c k u ap =
    Inr \<lparr>supplier_price = sp,
         base_markup_percent = get_base_markup sp * 100,
         adjusted_markup_percent = spec_adjusted_markup (get_base_markup sp) c k u * 100,
         selling_price = spec_selling_price sp c k u,
         final_price = spec_final_price cf sp c k u ap,
         profit_margin =
           (if spec_final_price cf sp c k u ap > 0
            then (spec_final_price cf sp c k u ap - sp - spec_total_costs cf sp c k u)
                   / spec_final_price cf sp c k u ap * 100
            else 0),
         cost_breakdown = calculate_total_costs cf sp (spec_selling_price sp c k u)\<rparr>"
  by (simp add: calculate_price_def calculate_adjusted_markup_Inr py_truediv_def Let_def
      spec_selling_price_def spec_total_costs_def spec_final_price_def py_sum_costs)


lemma spec_selling_price_pos: "0 < sp \<Longrightarrow> 0 < spec_selling_price sp c k u"
  using spec_adjusted_markup_floor [of "get_base_markup sp" c k u]
  by (simp add: spec_selling_price_def)

lemma spec_total_costs_nonneg:
  assumes "0 < sp" "0 \<le> payment_gateway_fee cf" "0 \<le> platform_fee cf"
    "0 \<le> packaging_cost cf" "0 \<le> returns_buffer cf" "0 \<le> gst_rate cf"
  shows "0 \<le> spec_total_costs cf sp c k u"
proof -
  have s: "0 \<le> spec_selling_price sp c k u"
    using spec_selling_price_pos [OF assms(1), of c k u] by simp
  show ?thesis
    unfolding spec_total_costs_def Let_def
    using s assms(2-6) by (intro add_nonneg_nonneg mult_nonneg_nonneg)
qed

lemmas price_eval =
  calculate_price_Inr spec_final_price_def spec_total_costs_def
  spec_selling_price_def spec_adjusted_markup_def get_base_markup_def first_tier_bands
  default_cost_factors_def calculate_total_costs_eq apply_psychological_pricing_def py_sum_def

subsection \<open>The adjusted markup\<close>

text \<open>
  C3. For every base markup, category, competition level and uniqueness flag, the
  adjusted markup is the greater of 0.15 and the product of the base markup, the
  category multiplier, the competition multiplier and 1.15 (when the product has a unique
  value; 1 otherwise). So it is never below 0.15, and the \<open>adjusted_markup_percent\<close> of
  every result of \<open>calculate_price\<close> is at least 15.
\<close>

theorem calculate_adjusted_markup_floor:
  "calculate_adjusted_markup b c k u =
     Inr (max (b * category_multiplier c * competition_multiplier k
                 * (if u then 1.15 else 1)) 0.15) \<and>
   (\<exists>m. calculate_adjusted_markup b c k u = Inr m \<and> 0.15 \<le> m) \<and>
   (\<exists>r. calculate_price cf sp c k u ap = Inr r \<and>
        adjusted_markup_percent r =
          max (get_base_markup sp * category_multiplier c * competition_multiplier k
                 * (if u then 1.15 else 1)) 0.15 * 100 \<and>
        15 \<le> adjusted_markup_percent r)"
proof -
  have "15 \<le> spec_adjusted_markup (get_base_markup sp) c k u * 100"
    using spec_adjusted_markup_floor [of "get_base_markup sp" c k u] by simp
  then show ?thesis
    using spec_adjusted_markup_floor [of b c k u]
    by (simp add: calculate_adjusted_markup_Inr calculate_price_Inr)
      (simp add: spec_adjusted_markup_def)
qed

subsection \<open>The cost breakdown\<close>

text \<open>
  C4. The cost breakdown of every result of \<open>calculate_price\<close> has exactly the five
  entries \<open>payment_gateway\<close>, \<open>platform_fee\<close>, \<open>packaging\<close>, \<open>returns_buffer\<close> and
  \<open>gst\<close>, each a rate times the selling price before costs (the packaging cost is
  fixed); and without psychological rounding the final price is the selling price plus
  the sum of the five entries.
\<close>

theorem cost_breakdown_five_components:
  "\<exists>r. calculate_price cf sp c k u ap = Inr r \<and>
     cost_breakdown r =
       [(''payment_gateway'', selling_price r * payment_gateway_fee cf),
        (''platform_fee'', selling_price r * platform_fee cf),
        (''packaging'', packaging_cost cf),
        (''returns_buffer'', selling_price r * returns_buffer cf),
        (''gst'', selling_price r * gst_rate cf)] \<and>
     (\<not> ap \<longrightarrow>
        final_price r = selling_price r + py_sum (map snd (cost_breakdown r)) \<and>
        final_price r =
          selling_price r
            + (selling_price r * payment_gateway_fee cf + selling_price r * platform_fee cf
                 + packaging_cost cf + selling_price r * returns_buffer cf
                 + selling_price r * gst_rate cf))"
  by (simp add: calculate_price_Inr calculate_total_costs_eq py_sum_def
      spec_final_price_def spec_total_costs_def Let_def)

theorem cost_breakdown_five_components_witness:
  "\<not> False \<and>
   (\<exists>r. calculate_price default_cost_factors 150 GENERIC MEDIUM False False = Inr r \<and>
      selling_price r = 240 \<and>
      cost_breakdown r =
        [(''payment_gateway'', 4.8), (''platform_fee'', 7.2), (''packaging'', 10),
         (''returns_buffer'', 7.2), (''gst'', 43.2)] \<and>
      final_price r = 312.4)"
  using cost_breakdown_five_components [of default_cost_factors 150 GENERIC MEDIUM False False]
  by (simp add: price_eval)

subsection \<open>The final price\<close>

lemma spec_final_price_pos:
  assumes "0 < sp" "0 \<le> payment_gateway_fee cf" "0 \<le> platform_fee cf"
    "0 \<le> packaging_cost cf" "0 \<le> returns_buffer cf" "0 \<le> gst_rate cf"
  shows "0 < spec_final_price cf sp c k u ap"
proof -
  have raw: "0 < spec_selling_price sp c k u + spec_total_costs cf sp c k u"
    using spec_selling_price_pos [OF assms(1), of c k u] spec_total_costs_nonneg [OF assms, of c k u]
    by linarith
  show ?thesis
    unfolding spec_final_price_def Let_def
    using raw apply_psychological_pricing_pos [OF raw] by simp
qed

text \<open>
  Inside the float range the second embedding computes what the first computes: a value
  from 0 to \<open>float_safe_bound + 99\<close> is a finite float, the rounding of a raw price is at
  most 99 above it, and step 7 divides by a final price that is not 0.
\<close>

lemma float_overflow_bound: "float_safe_bound + 99 < float_overflow"
  unfolding float_overflow_def float_safe_bound_def by simp

lemma to_float_Fin: "0 \<le> x \<Longrightarrow> x \<le> float_safe_bound + 99 \<Longrightarrow> to_float x = Fin x"
  using float_overflow_bound by (simp add: to_float_def)

lemma apply_psychological_pricing_le:
  "real_of_int (apply_psychological_pricing x) \<le> x + 99"
proof -
  define t h where "t = \<lfloor>x / 10\<rfloor>" and "h = \<lfloor>x / 100\<rfloor>"
  have t: "real_of_int t * 10 \<le> x"
    unfolding t_def using of_int_floor_le [of "x / 10"] by simp
  have h: "real_of_int h * 100 \<le> x"
    unfolding h_def using of_int_floor_le [of "x / 100"] by simp
  have u: "real_of_int ((h - h mod 10 + 4) * 100 + 99) \<le> x + 99" if "\<not> h mod 10 < 5"
  proof -
    have "h - h mod 10 + 4 \<le> h" using that by simp
    then have "(h - h mod 10 + 4) * 100 \<le> h * 100" by (rule mult_right_mono) simp
    then have "real_of_int ((h - h mod 10 + 4) * 100) \<le> real_of_int (h * 100)"
      by (rule of_int_le_iff [THEN iffD2])
    then show ?thesis using h by simp
  qed
  have "apply_psychological_pricing x =
      (if x < 100 then t * 10 + 9
       else if x < 1000 then h * 100 + 99
       else if h mod 10 < 5 then h * 100 - 1
       else (h - h mod 10 + 4) * 100 + 99)"
    by (simp add: apply_psychological_pricing_def Let_def t_def h_def)
  then show ?thesis using t h u by auto
qed

lemma floor_div_Fin:
  assumes "0 \<le> x" "x \<le> float_safe_bound" "1 \<le> d"
  shows "floor_div (Fin x) d = Inr \<lfloor>x / d\<rfloor>"
proof -
  have "0 \<le> x / d" using assms by simp
  moreover have "x * 1 \<le> x * d" using assms by (intro mult_left_mono) simp_all
  then have "x / d \<le> x" using assms(3) by (simp add: divide_le_eq)
  ultimately have "to_float (x / d) = Fin (x / d)"
    using assms(2) by (intro to_float_Fin) linarith+
  then show ?thesis using assms(3) by (simp add: floor_div_def)
qed

lemma apply_psychological_pricing_float_Fin:
  assumes "0 \<le> x" "x \<le> float_safe_bound"
  shows "apply_psychological_pricing_float (Fin x) = Inr (apply_psychological_pricing x)"
  by (simp add: apply_psychological_pricing_float_def apply_psychological_pricing_def
      floor_div_Fin [OF assms] Let_def)

lemma int_to_float_Fin:
  assumes "0 \<le> n" "real_of_int n \<le> float_safe_bound + 99"
  shows "int_to_float n = Inr (Fin (real_of_int n))"
  using assms float_overflow_bound by (simp add: int_to_float_def)

lemma fl_truediv_nonzero: "b \<noteq> 0 \<Longrightarrow> \<exists>q. fl_truediv x (Fin b) = Inr q"
  by (cases x) simp_all

lemma step_7_returns:
  assumes "b \<noteq> 0"
  shows "\<exists>margin.
     (if fl_less (Fin 0) (Fin b)
      then (case fl_truediv profit (Fin b) of
              Inl e \<Rightarrow> Inl e
            | Inr q \<Rightarrow> Inr (fl_mult q (Fin 100)))
      else Inr (Fin 0)) = Inr margin"
  using assms by (cases profit) simp_all

lemma calculate_price_float_in_range:
  assumes pos: "0 < sp"
    and nonneg: "0 \<le> payment_gateway_fee cf" "0 \<le> platform_fee cf"
      "0 \<le> packaging_cost cf" "0 \<le> returns_buffer cf" "0 \<le> gst_rate cf"
    and bound: "spec_selling_price sp c k u + spec_total_costs cf sp c k u \<le> float_safe_bound"
  shows "\<exists>r. calculate_price_float cf sp c k u ap = Inr r \<and>
     float_final_price r = Fin (spec_final_price cf sp c k u ap)"
proof -
  define adj where "adj = spec_adjusted_markup (get_base_markup sp) c k u"
  define s where "s = sp * (1 + adj)"
  define c1 c2 c3 c4 p where "c1 = s * payment_gateway_fee cf" and "c2 = s * platform_fee cf"
    and "c3 = s * returns_buffer cf" and "c4 = s * gst_rate cf" and "p = packaging_cost cf"
  define T where "T = c1 + c2 + p + c3 + c4"
  have s_eq: "spec_selling_price sp c k u = s"
    by (simp add: spec_selling_price_def s_def adj_def)
  have T_eq: "spec_total_costs cf sp c k u = T"
    by (simp add: spec_total_costs_def Let_def s_eq T_def c1_def c2_def c3_def c4_def p_def)
  have s0: "0 < s" using spec_selling_price_pos [OF pos, of c k u] by (simp add: s_eq)
  have c0: "0 \<le> c1" "0 \<le> c2" "0 \<le> c3" "0 \<le> c4" "0 \<le> p"
    using s0 nonneg by (simp_all add: c1_def c2_def c3_def c4_def p_def)
  have B: "s + T \<le> float_safe_bound" using bound by (simp add: s_eq T_eq)
  have sel: "to_float (sp * (1 + adj)) = Fin s"
    using s0 c0 B by (simp add: s_def [symmetric] T_def to_float_Fin)
  have costs: "to_float (s * payment_gateway_fee cf) = Fin c1"
    "to_float (s * platform_fee cf) = Fin c2"
    "to_float (s * returns_buffer cf) = Fin c3"
    "to_float (s * gst_rate cf) = Fin c4"
    using s0 c0 B
    by (simp_all add: c1_def [symmetric] c2_def [symmetric] c3_def [symmetric]
        c4_def [symmetric] T_def to_float_Fin)
  have sums: "to_float c1 = Fin c1" "to_float (c1 + c2) = Fin (c1 + c2)"
    "to_float (c1 + c2 + p) = Fin (c1 + c2 + p)"
    "to_float (c1 + c2 + p + c3) = Fin (c1 + c2 + p + c3)"
    "to_float (c1 + c2 + p + c3 + c4) = Fin T"
    "to_float (s + T) = Fin (s + T)"
    using s0 c0 B by (simp_all add: T_def to_float_Fin)
  have total: "py_sum_float (map snd (calculate_total_costs_float cf (Fin s))) = Fin T"
    by (simp add: calculate_total_costs_float_def py_sum_float_def costs sums
        p_def [symmetric])
  have raw0: "0 < s + T" using s0 c0 by (simp add: T_def)
  have adj: "calculate_adjusted_markup (get_base_markup sp) c k u = Inr adj"
    by (simp add: calculate_adjusted_markup_Inr adj_def)
  have fin: "spec_final_price cf sp c k u a
      = (if a then real_of_int (apply_psychological_pricing (s + T)) else s + T)" for a
    by (simp add: spec_final_price_def Let_def s_eq T_eq)
  show ?thesis
  proof (cases ap)
    case True
    define n where "n = apply_psychological_pricing (s + T)"
    have n0: "0 < n" unfolding n_def using raw0 by (rule apply_psychological_pricing_pos)
    have "real_of_int n \<le> s + T + 99" unfolding n_def by (rule apply_psychological_pricing_le)
    then have nB: "real_of_int n \<le> float_safe_bound + 99" using B by linarith
    have rnd: "apply_psychological_pricing_float (Fin (s + T)) = Inr n"
      unfolding n_def using raw0 B by (intro apply_psychological_pricing_float_Fin) simp_all
    have conv: "int_to_float n = Inr (Fin (real_of_int n))"
      using n0 nB by (intro int_to_float_Fin) simp_all
    have "real_of_int n \<noteq> 0" using n0 by simp
    from step_7_returns [OF this]
    obtain margin where
      "(if fl_less (Fin 0) (Fin (real_of_int n))
        then (case fl_truediv (fl_sub (fl_sub (Fin (real_of_int n)) (Fin sp)) (Fin T))
                     (Fin (real_of_int n)) of
                Inl e \<Rightarrow> Inl e
              | Inr q \<Rightarrow> Inr (fl_mult q (Fin 100)))
        else Inr (Fin 0)) = Inr margin"
      by blast
    moreover have "spec_final_price cf sp c k u ap = real_of_int n"
      using True by (simp add: fin n_def)
    ultimately show ?thesis
      using True n0
      by (simp add: calculate_price_float_def adj Let_def sel total sums rnd conv)
  next
    case False
    have "s + T \<noteq> 0" using raw0 by simp
    from step_7_returns [OF this]
    obtain margin where
      "(if fl_less (Fin 0) (Fin (s + T))
        then (case fl_truediv (fl_sub (fl_sub (Fin (s + T)) (Fin sp)) (Fin T)) (Fin (s + T)) of
                Inl e \<Rightarrow> Inl e
              | Inr q \<Rightarrow> Inr (fl_mult q (Fin 100)))
        else Inr (Fin 0)) = Inr margin"
      by blast
    then show ?thesis
      using False raw0
      by (simp add: calculate_price_float_def adj Let_def sel total sums fin)
  qed
qed

text \<open>
  C6, as claimed: for every supplier price above 0 and cost factors that are not
  negative, the final price of the result is above 0. At the supplier price 1.5e308 with
  the default cost factors the selling price overflows to an infinity, and with rounding
  \<open>math.floor\<close> raises \<open>OverflowError\<close>: there is no result. Without rounding and with
  the four rates 0, the costs are infinity times 0, and the final price is \<open>nan\<close>.
\<close>

theorem calculate_price_float_overflow:
  "(0::real) < 15 * 10 ^ 307 \<and>
   calculate_price_float default_cost_factors (15 * 10 ^ 307) GENERIC MEDIUM False True
     = Inl OverflowError \<and>
   (\<exists>r. calculate_price_float
          \<lparr>payment_gateway_fee = 0, platform_fee = 0, packaging_cost = 10,
           returns_buffer = 0, gst_rate = 0\<rparr> (15 * 10 ^ 307) GENERIC MEDIUM False False = Inr r \<and>
        float_final_price r = NaN)"
  by (simp add: calculate_price_float_def get_base_markup_def first_tier_bands
      calculate_adjusted_markup_Inr spec_adjusted_markup_def default_cost_factors_def
      calculate_total_costs_float_def py_sum_float_def to_float_def float_overflow_def
      inf_of_sign_def apply_psychological_pricing_float_def floor_div_def fl_sub_def)

text \<open>
  C6, amended: for every supplier price above 0 and cost factors that are not negative,
  such that the raw price (the selling price plus the total additional costs) is at most
  \<open>10 ^ 307\<close>, \<open>calculate_price\<close> returns a result, with or without rounding, and its
  final price is a finite number above 0.
\<close>

theorem final_price_positive_in_float_range:
  assumes "0 < sp" "0 \<le> payment_gateway_fee cf" "0 \<le> platform_fee cf"
    "0 \<le> packaging_cost cf" "0 \<le> returns_buffer cf" "0 \<le> gst_rate cf"
    and "spec_selling_price sp c k u + spec_total_costs cf sp c k u \<le> float_safe_bound"
  shows "\<exists>r x. calculate_price_float cf sp c k u ap = Inr r \<and>
     float_final_price r = Fin x \<and> 0 < x"
  using calculate_price_float_in_range [OF assms, of ap] spec_final_price_pos [OF assms(1-6), of c k u ap]
  by blast

theorem final_price_positive_in_float_range_witness:
  "(0::real) < 150 \<and> 0 \<le> payment_gateway_fee default_cost_factors \<and>
   0 \<le> platform_fee default_cost_factors \<and> 0 \<le> packaging_cost default_cost_factors \<and>
   0 \<le> returns_buffer default_cost_factors \<and> 0 \<le> gst_rate default_cost_factors \<and>
   spec_selling_price 150 GENERIC MEDIUM False
     + spec_total_costs default_cost_factors 150 GENERIC MEDIUM False \<le> float_safe_bound \<and>
   (\<exists>r x. calculate_price_float default_cost_factors 150 GENERIC MEDIUM False True = Inr r \<and>
      float_final_price r = Fin x \<and> 0 < x)"
proof -
  have b: "spec_selling_price 150 GENERIC MEDIUM False
     + spec_total_costs default_cost_factors 150 GENERIC MEDIUM False \<le> float_safe_bound"
    by (simp add: spec_selling_price_def spec_total_costs_def spec_adjusted_markup_def
        get_base_markup_def first_tier_bands default_cost_factors_def float_safe_bound_def)
  have n: "0 \<le> payment_gateway_fee default_cost_factors"
    "0 \<le> platform_fee default_cost_factors" "0 \<le> packaging_cost default_cost_factors"
    "0 \<le> returns_buffer default_cost_factors" "0 \<le> gst_rate default_cost_factors"
    by (simp_all add: default_cost_factors_def)
  have p: "(0::real) < 150" by simp
  from final_price_positive_in_float_range [OF p n b, of True] b n p
  show ?thesis by blast
qed

subsection \<open>The profit margin\<close>

text \<open>
  C7. \<open>calculate_price\<close> always returns a result and never \<open>ZeroDivisionError\<close>: when
  the final price is above 0 the profit margin is 100 times (final price - supplier
  price - total additional costs) over the final price, and otherwise it is 0.
\<close>

theorem profit_margin_guarded:
  "\<exists>r. calculate_price cf sp c k u ap = Inr r \<and>
     (0 < final_price r \<longrightarrow>
        profit_margin r =
          100 * (final_price r - supplier_price r - py_sum (map snd (cost_breakdown r)))
            / final_price r) \<and>
     (final_price r \<le> 0 \<longrightarrow> profit_margin r = 0)"
  by (simp add: calculate_price_Inr py_sum_costs spec_total_costs_def Let_def)

theorem profit_margin_guarded_witness:
  "(\<exists>r. calculate_price default_cost_factors 150 GENERIC MEDIUM False True = Inr r \<and>
      0 < final_price r \<and> final_price r = 399 \<and>
      profit_margin r = 100 * (399 - 150 - 72.4) / 399) \<and>
   (\<exists>r. calculate_price default_cost_factors (- 5) GENERIC MEDIUM False True = Inr r \<and>
      final_price r \<le> 0 \<and> final_price r = - 1 \<and> profit_margin r = 0)"
  using profit_margin_guarded [of default_cost_factors 150 GENERIC MEDIUM False True]
    profit_margin_guarded [of default_cost_factors "- 5" GENERIC MEDIUM False True]
  by (simp add: price_eval)

subsection \<open>Rounding and the raw price\<close>

text \<open>
  C10, as claimed, says first that the rounding is not monotone non-decreasing in its
  input. It is: a higher raw price never gets a lower rounded price.
\<close>

theorem psychological_pricing_order_preserved:
  "\<not> (\<exists>p q. p \<le> q \<and> apply_psychological_pricing q < apply_psychological_pricing p)"
  using apply_psychological_pricing_mono by (auto simp add: not_less)

text \<open>
  C10, amended: the rounding can lower a price. Every raw price from 1000 and below 1100
  is rounded to 999, which is below it; so with rounding the final price can be below
  the selling price plus the total additional costs, and below 1000, as it is for the
  supplier price 560 with the default costs (raw price 1033.12, final price 999).
\<close>

theorem psychological_pricing_below_raw_price:
  "(1000 \<le> p \<and> p < 1100 \<longrightarrow>
      apply_psychological_pricing p = 999 \<and> real_of_int (apply_psychological_pricing p) < p) \<and>
   (\<exists>r. calculate_price default_cost_factors 560 GENERIC MEDIUM False True = Inr r \<and>
        selling_price r + py_sum (map snd (cost_breakdown r)) = 1033.12 \<and>
        final_price r = 999 \<and>
        final_price r < selling_price r + py_sum (map snd (cost_breakdown r)) \<and>
        final_price r < 1000)"
proof -
  have "1000 \<le> p \<and> p < 1100 \<longrightarrow>
      apply_psychological_pricing p = 999 \<and> real_of_int (apply_psychological_pricing p) < p"
    using apply_psychological_pricing_999 [of p] by auto
  moreover have "\<exists>r. calculate_price default_cost_factors 560 GENERIC MEDIUM False True = Inr r \<and>
        selling_price r + py_sum (map snd (cost_breakdown r)) = 1033.12 \<and>
        final_price r = 999 \<and>
        final_price r < selling_price r + py_sum (map snd (cost_breakdown r)) \<and>
        final_price r < 1000"
    by (simp add: price_eval)
  ultimately show ?thesis by blast
qed

theorem psychological_pricing_below_raw_price_witness:
  "(1000::real) \<le> 1050 \<and> (1050::real) < 1100 \<and>
   apply_psychological_pricing 1050 = 999 \<and>
   real_of_int (apply_psychological_pricing 1050) < 1050"
  using psychological_pricing_below_raw_price [of 1050] by simp

section \<open>The bulk dispatcher\<close>

lemma bulk_item_resolvable:
  assumes "resolvable p"
  shows "\<exists>r sp category competition.
     bulk_item cf p = Inr r \<and>
     product_supplier_price p = Some sp \<and>
     ProductCategory_of_value (dict_get (product_category p) ''generic'') = Inr category \<and>
     CompetitionLevel_of_value (dict_get (product_competition p) ''medium'') = Inr competition \<and>
     calculate_price cf sp category competition
       (dict_get (product_has_unique_value p) False) True = Inr r"
proof -
  from assms obtain sp category competition where
    "product_supplier_price p = Some sp"
    "ProductCategory_of_value (dict_get (product_category p) ''generic'') = Inr category"
    "CompetitionLevel_of_value (dict_get (product_competition p) ''medium'') = Inr competition"
    unfolding resolvable_def
    by (cases "ProductCategory_of_value (dict_get (product_category p) ''generic'')";
        cases "CompetitionLevel_of_value (dict_get (product_competition p) ''medium'')")
      auto
  then show ?thesis by (simp add: bulk_item_def calculate_price_Inr)
qed

lemma bulk_loop_resolvable:
  assumes "\<forall>p \<in> set ps. resolvable p"
  shows "\<exists>rs. bulk_loop cf ps results = Inr (results @ rs) \<and> length rs = length ps \<and>
     (\<forall>i < length ps. bulk_item cf (ps ! i) = Inr (rs ! i))"
  using assms
proof (induction ps arbitrary: results)
  case Nil
  then show ?case by simp
next
  case (Cons p ps)
  from Cons.prems have "resolvable p" by simp
  then obtain r where r: "bulk_item cf p = Inr r"
    using bulk_item_resolvable [of p cf] by blast
  from Cons.prems have "\<forall>q \<in> set ps. resolvable q" by simp
  from Cons.IH [OF this, of "results @ [r]"] obtain rs where
    rs: "bulk_loop cf ps (results @ [r]) = Inr ((results @ [r]) @ rs)"
      "length rs = length ps"
      "\<forall>i < length ps. bulk_item cf (ps ! i) = Inr (rs ! i)"
    by blast
  have "\<forall>i < length (p # ps). bulk_item cf ((p # ps) ! i) = Inr ((r # rs) ! i)"
  proof (intro allI impI)
    fix i assume "i < length (p # ps)"
    then show "bulk_item cf ((p # ps) ! i) = Inr ((r # rs) ! i)"
      using r rs(3) by (cases i) simp_all
  qed
  with r rs(1,2) show ?case
    by (intro exI [of _ "r # rs"]) simp
qed

lemma example_resolvable: "list_all resolvable example_products"
  by (simp add: example_products_def resolvable_def dict_get_def
      ProductCategory_of_value_def CompetitionLevel_of_value_def)

text \<open>
  C8. For a list of descriptors that each have a supplier price and whose category and
  competition strings resolve, \<open>bulk_calculate\<close> returns a list of the same length, in
  the order of the input, and its i-th element is the result of \<open>calculate_price\<close> on
  the i-th descriptor's supplier price, its category (\<open>generic\<close> when absent), its
  competition level (\<open>medium\<close> when absent) and its uniqueness flag (false when absent),
  with rounding.
\<close>

theorem bulk_calculate_each_item:
  assumes "list_all resolvable products"
  shows "\<exists>rs. bulk_calculate cf products = Inr rs \<and> length rs = length products \<and>
     (\<forall>i < length products.
        \<exists>sp category competition.
          product_supplier_price (products ! i) = Some sp \<and>
          ProductCategory_of_value (dict_get (product_category (products ! i)) ''generic'')
            = Inr category \<and>
          CompetitionLevel_of_value (dict_get (product_competition (products ! i)) ''medium'')
            = Inr competition \<and>
          calculate_price cf sp category competition
            (dict_get (product_has_unique_value (products ! i)) False) True = Inr (rs ! i))"
proof -
  from assms have all: "\<forall>p \<in> set products. resolvable p" by (simp add: list_all_iff)
  from bulk_loop_resolvable [OF all, of cf "[]"] obtain rs where
    rs: "bulk_loop cf products [] = Inr rs" "length rs = length products"
      "\<forall>i < length products. bulk_item cf (products ! i) = Inr (rs ! i)"
    by auto
  have "\<exists>sp category competition.
          product_supplier_price (products ! i) = Some sp \<and>
          ProductCategory_of_value (dict_get (product_category (products ! i)) ''generic'')
            = Inr category \<and>
          CompetitionLevel_of_value (dict_get (product_competition (products ! i)) ''medium'')
            = Inr competition \<and>
          calculate_price cf sp category competition
            (dict_get (product_has_unique_value (products ! i)) False) True = Inr (rs ! i)"
    if "i < length products" for i
  proof -
    from that all have "resolvable (products ! i)" by simp
    from bulk_item_resolvable [OF this, of cf] rs(3) that show ?thesis by auto
  qed
  with rs(1,2) show ?thesis by (auto simp add: bulk_calculate_def)
qed

theorem bulk_calculate_each_item_witness:
  "list_all resolvable example_products \<and>
   (\<exists>rs. bulk_calculate default_cost_factors example_products = Inr rs \<and> length rs = 3 \<and>
      calculate_price default_cost_factors 150 ELECTRONICS HIGH False True = Inr (rs ! 0) \<and>
      calculate_price default_cost_factors 900 BEAUTY LOW True True = Inr (rs ! 1) \<and>
      calculate_price default_cost_factors 1600 GENERIC MEDIUM False True = Inr (rs ! 2))"
  using bulk_calculate_each_item [OF example_resolvable, of default_cost_factors]
  by (simp add: example_resolvable)
    (auto simp add: example_products_def All_less_Suc numeral_2_eq_2 dict_get_def
      ProductCategory_of_value_def CompetitionLevel_of_value_def)

subsection \<open>Descriptors that fail\<close>

text \<open>
  The first descriptor that raises ends the whole call with its exception, and no
  partial list is returned: an unknown category string is a \<open>ValueError\<close>, a missing
  supplier price a \<open>KeyError\<close> (raised before the category is looked at).
\<close>

lemma bulk_loop_first_failure:
  "bulk_item cf p = Inl e \<Longrightarrow> list_all resolvable ps \<Longrightarrow>
   bulk_loop cf (ps @ p # qs) results = Inl e"
proof (induction ps arbitrary: results)
  case Nil
  then show ?case by simp
next
  case (Cons a ps)
  from Cons.prems(2) have "resolvable a" by simp
  then obtain r where "bulk_item cf a = Inr r"
    using bulk_item_resolvable [of a cf] by blast
  with Cons show ?case by simp
qed

lemma bulk_calculate_unknown_category:
  "bulk_calculate cf
     (example_products @
      [\<lparr>product_supplier_price = Some 500, product_category = Some ''luxury'',
        product_competition = None, product_has_unique_value = None\<rparr>])
   = Inl ValueError"
  unfolding bulk_calculate_def
  by (rule bulk_loop_first_failure [OF _ example_resolvable])
    (simp add: bulk_item_def dict_get_def ProductCategory_of_value_def)

lemma bulk_calculate_missing_price:
  "bulk_calculate cf
     [\<lparr>product_supplier_price = None, product_category = Some ''luxury'',
       product_competition = None, product_has_unique_value = None\<rparr>]
   = Inl KeyError"
  by (simp add: bulk_calculate_def bulk_item_def)

end
